theory Spec2Isabelle
  imports Main "HOL-Library.Sublist"
begin

section \<open>JavaScript string operations used by the component\<close>

text \<open>
  A JavaScript string is modelled as a \<open>string\<close>, a list of 8-bit characters: the
  code units below 256. Every literal of \<open>ProductScraper.tsx\<close> lies in that range.
\<close>

text \<open>\<open>s.includes(sub)\<close>: some suffix of \<open>s\<close> starts with \<open>sub\<close>.\<close>

fun str_includes :: "string \<Rightarrow> string \<Rightarrow> bool" where
  "str_includes [] sub = (sub = [])"
| "str_includes (c # cs) sub = (prefix sub (c # cs) \<or> str_includes cs sub)"

text \<open>
  The characters \<open>String.prototype.trim\<close> strips (WhiteSpace and LineTerminator of
  ECMAScript) that lie below 256: TAB, LF, VT, FF, CR, SPACE and NBSP.
\<close>

definition is_white_space :: "char \<Rightarrow> bool" where
  "is_white_space c =
     (c = CHR 0x09 \<or> c = CHR 0x0A \<or> c = CHR 0x0B \<or> c = CHR 0x0C \<or> c = CHR 0x0D
      \<or> c = CHR 0x20 \<or> c = CHR 0xA0)"

definition trim :: "string \<Rightarrow> string" where
  "trim s = rev (dropWhile is_white_space (rev (dropWhile is_white_space s)))"

text \<open>\<open>xs.join(sep)\<close> on an array of strings.\<close>

fun join :: "string \<Rightarrow> string list \<Rightarrow> string" where
  "join sep [] = []"
| "join sep [x] = x"
| "join sep (x # y # ys) = x @ sep @ join sep (y # ys)"

text \<open>\<open>s.replace(/"/g, '""')\<close>: every double quote is replaced by two.\<close>

definition replace_quotes :: "string \<Rightarrow> string" where
  "replace_quotes s = concat (map (\<lambda>c. if c = CHR 0x22 then [CHR 0x22, CHR 0x22] else [c]) s)"

text \<open>The template literal \<open>`"${d}"`\<close>.\<close>

definition quoted :: "string \<Rightarrow> string" where
  "quoted d = [CHR 0x22] @ d @ [CHR 0x22]"

text \<open>
  \<open>v || ''\<close> for \<open>v\<close> of type \<open>string | undefined\<close>: the falsy values of that type
  are \<open>undefined\<close> (here \<open>None\<close>) and the empty string.
\<close>

definition truthy :: "string option \<Rightarrow> bool" where
  "truthy v = (case v of None \<Rightarrow> False | Some t \<Rightarrow> t \<noteq> [])"

definition or_empty :: "string option \<Rightarrow> string" where
  "or_empty v = (if truthy v then the v else [])"

section \<open>Data model\<close>

text \<open>The interface \<open>ProductData\<close> (lines 12 to 21).\<close>

record price =
  original :: string
  discounted :: "string option"

record ProductData =
  product_name :: string
  price :: price
  description :: string
  variants :: "string list"
  image_urls :: "string list"

text \<open>
  The three \<open>useState\<close> cells of the component (lines 24 to 26). \<open>handleScrape\<close> stores
  \<open>response.data\<close> without looking at it, so the session is parametric in the type
  \<open>'d\<close> of what the endpoint sends; \<open>None\<close> is \<open>null\<close>. The exports read the fields
  of the interface and are stated on \<open>ProductData session\<close>.
\<close>

record 'd session =
  url :: string
  loading :: bool
  productData :: "'d option"

definition initial :: "'d session" where
  "initial = \<lparr>url = [], loading = False, productData = None\<rparr>"

text \<open>
  A worksheet is a list of rows of cells (\<open>None\<close>: no cell), a workbook a list of
  named sheets.
\<close>

type_synonym worksheet = "string option list list"
type_synonym workbook = "(string \<times> worksheet) list"

text \<open>
  What a handler does to the outside: a toast (title, description, variant), the call
  \<open>axios.post(endpoint, { url })\<close>, \<open>console.error\<close>, \<open>saveAs\<close> of a blob (content,
  MIME type, file name) and \<open>XLSX.writeFile\<close>.
\<close>

datatype variant = Default | Destructive

datatype effect =
    Toast string string variant
  | AxiosPost string string
  | ConsoleError string
  | SaveAs string string string
  | WriteFile workbook string

section \<open>URL validation and the scrape handler\<close>

text \<open>\<open>validateAmazonUrl\<close> (lines 29 to 31).\<close>

definition validateAmazonUrl :: "string \<Rightarrow> bool" where
  "validateAmazonUrl u =
     (str_includes u ''amazon.'' \<and> (str_includes u ''/dp/'' \<or> str_includes u ''/gp/''))"

text \<open>
  \<open>handleScrape\<close> is asynchronous with one suspension point, the \<open>await\<close> of line 54.
  \<open>handleScrape\<close> below is the part that runs at the click (lines 34 to 54): it returns
  the session after the state setters and the effects in the order they are issued.
\<close>

definition handleScrape :: "'d session \<Rightarrow> 'd session \<times> effect list" where
  "handleScrape s =
     (if trim (url s) = [] then
        (s, [Toast ''URL Required'' ''Please enter an Amazon product URL'' Destructive])
      else if \<not> validateAmazonUrl (url s) then
        (s, [Toast ''Invalid URL'' ''Please enter a valid Amazon product URL'' Destructive])
      else
        (s\<lparr>loading := True\<rparr>, [AxiosPost ''/scrape'' (url s)]))"

text \<open>
  What the transport delivers, and how \<open>axios.post\<close> settles on it with its default
  \<open>validateStatus\<close>: the promise is fulfilled for a status from 200 to 299 and
  rejected otherwise, as it is when no response arrives. The body is \<open>response.data\<close>,
  \<open>None\<close> when it is \<open>null\<close>.
\<close>

datatype 'd http_result = NetworkError | HttpResponse nat "'d option"

datatype 'd settled = Rejected | Fulfilled "'d option"

fun axios_post :: "'d http_result \<Rightarrow> 'd settled" where
  "axios_post NetworkError = Rejected"
| "axios_post (HttpResponse status body) =
     (if 200 \<le> status \<and> status < 300 then Fulfilled body else Rejected)"

text \<open>
  The rest of \<open>handleScrape\<close>, run when the promise settles (lines 55 to 69): the
  \<open>try\<close> branch on fulfilment, the \<open>catch\<close> branch on rejection, \<open>finally\<close> after both.
\<close>

fun handleScrape_resume :: "'d settled \<Rightarrow> 'd session \<Rightarrow> 'd session \<times> effect list" where
  "handleScrape_resume (Fulfilled body) s =
     (s\<lparr>productData := body, loading := False\<rparr>,
      [Toast ''Success!'' ''Product data scraped successfully'' Default])"
| "handleScrape_resume Rejected s =
     (s\<lparr>loading := False\<rparr>,
      [ConsoleError ''Scraping error:'',
       Toast ''Scraping Failed'' ''Failed to scrape product data. Please try again.'' Destructive])"

section \<open>The export encoders\<close>

text \<open>\<open>exportToCSV\<close> (lines 72 to 94): \<open>headers\<close>, \<open>data\<close> and \<open>csvContent\<close>.\<close>

definition csv_headers :: "string list" where
  "csv_headers =
     [''Product Name'', ''Original Price'', ''Discounted Price'', ''Description'',
      ''Variants'', ''Image URLs'']"

definition csv_data :: "ProductData \<Rightarrow> string list" where
  "csv_data p =
     [product_name p,
      original (price p),
      or_empty (discounted (price p)),
      replace_quotes (description p),
      join ''; '' (variants p),
      join ''; '' (image_urls p)]"

definition csvContent :: "ProductData \<Rightarrow> string" where
  "csvContent p =
     join [CHR 0x0A]
       [join '','' (map quoted csv_headers), join '','' (map quoted (csv_data p))]"

definition exportToCSV :: "ProductData session \<Rightarrow> ProductData session \<times> effect list" where
  "exportToCSV s =
     (case productData s of
        None \<Rightarrow> (s, [])
      | Some p \<Rightarrow> (s, [SaveAs (csvContent p) ''text/csv;charset=utf-8;'' ''amazon-product.csv'']))"

text \<open>
  The three functions of the \<open>xlsx\<close> library that \<open>exportToExcel\<close> calls, after the
  library's documentation. A row object is the list of its keys and values in
  insertion order. \<open>json_to_sheet\<close> collects the keys of the objects in order of first
  appearance, writes them as the header row and writes one row for each object;
  \<open>book_new\<close> is a workbook without sheets; \<open>book_append_sheet\<close> adds a sheet under a
  name at the end.
\<close>

type_synonym row_object = "(string \<times> string) list"

definition add_key :: "string list \<Rightarrow> string \<Rightarrow> string list" where
  "add_key hdr k = (if k \<in> set hdr then hdr else hdr @ [k])"

definition json_to_sheet :: "row_object list \<Rightarrow> worksheet" where
  "json_to_sheet js =
     (let hdr = foldl add_key [] (concat (map (map fst) js))
      in map Some hdr # map (\<lambda>obj. map (map_of obj) hdr) js)"

definition book_new :: workbook where
  "book_new = []"

definition book_append_sheet :: "workbook \<Rightarrow> worksheet \<Rightarrow> string \<Rightarrow> workbook" where
  "book_append_sheet wb ws name = wb @ [(name, ws)]"

text \<open>\<open>exportToExcel\<close> (lines 96 to 111).\<close>

definition excel_row :: "ProductData \<Rightarrow> row_object" where
  "excel_row p =
     [(''Product Name'', product_name p),
      (''Original Price'', original (price p)),
      (''Discounted Price'', or_empty (discounted (price p))),
      (''Description'', description p),
      (''Variants'', join ''; '' (variants p)),
      (''Image URLs'', join ''; '' (image_urls p))]"

definition excel_workbook :: "ProductData \<Rightarrow> workbook" where
  "excel_workbook p = book_append_sheet book_new (json_to_sheet [excel_row p]) ''Product Data''"

definition exportToExcel :: "ProductData session \<Rightarrow> ProductData session \<times> effect list" where
  "exportToExcel s =
     (case productData s of
        None \<Rightarrow> (s, [])
      | Some p \<Rightarrow> (s, [WriteFile (excel_workbook p) ''amazon-product.xlsx'']))"

section \<open>The rendered page as a transition system\<close>

text \<open>
  The page is the session together with the scrape requests that have been issued and
  have not settled yet (the URL each one carries). The user and the transport act on it
  through the rendered elements:
  \<^item> the input (lines 139 to 145), disabled while \<open>loading\<close>;
  \<^item> the scrape button (lines 147 to 151), disabled while \<open>loading\<close> or when the
    trimmed URL is empty;
  \<^item> the two export buttons (lines 172 to 187), rendered only when \<open>productData\<close> is
    not \<open>null\<close>;
  \<^item> the settling of an outstanding request.
  An event that the page does not offer gives \<open>None\<close>.
\<close>

record page =
  session :: "ProductData session"
  in_flight :: "string list"

datatype ui_event =
    Change string
  | ClickScrape
  | Settle nat "ProductData http_result"
  | ClickExportCSV
  | ClickExportExcel

definition start :: page where
  "start = \<lparr>session = initial, in_flight = []\<rparr>"

fun request_of :: "effect \<Rightarrow> string list" where
  "request_of (AxiosPost endpoint u) = [u]"
| "request_of (Toast t d v) = []"
| "request_of (ConsoleError m) = []"
| "request_of (SaveAs c t f) = []"
| "request_of (WriteFile w f) = []"

definition requests :: "effect list \<Rightarrow> string list" where
  "requests fx = concat (map request_of fx)"

definition scrape_disabled :: "'d session \<Rightarrow> bool" where
  "scrape_disabled s = (loading s \<or> trim (url s) = [])"

definition dispatch ::
  "(ProductData session \<Rightarrow> ProductData session \<times> effect list) \<Rightarrow> page \<Rightarrow> page" where
  "dispatch handler pg =
     (case handler (session pg) of
        (s', fx) \<Rightarrow> \<lparr>session = s', in_flight = in_flight pg @ requests fx\<rparr>)"

fun ui_step :: "ui_event \<Rightarrow> page \<Rightarrow> page option" where
  "ui_step (Change v) pg =
     (if loading (session pg) then None
      else Some (pg\<lparr>session := (session pg)\<lparr>url := v\<rparr>\<rparr>))"
| "ui_step ClickScrape pg =
     (if scrape_disabled (session pg) then None else Some (dispatch handleScrape pg))"
| "ui_step (Settle i r) pg =
     (if i < length (in_flight pg) then
        Some (dispatch (handleScrape_resume (axios_post r))
               (pg\<lparr>in_flight := take i (in_flight pg) @ drop (Suc i) (in_flight pg)\<rparr>))
      else None)"
| "ui_step ClickExportCSV pg =
     (if productData (session pg) = None then None else Some (dispatch exportToCSV pg))"
| "ui_step ClickExportExcel pg =
     (if productData (session pg) = None then None else Some (dispatch exportToExcel pg))"

fun run :: "ui_event list \<Rightarrow> page \<Rightarrow> page option" where
  "run [] pg = Some pg"
| "run (e # es) pg = (case ui_step e pg of None \<Rightarrow> None | Some pg' \<Rightarrow> run es pg')"

text \<open>
  Single flight: at most one request is outstanding, and one is outstanding exactly
  while \<open>loading\<close> is set.
\<close>

definition single_flight :: "page \<Rightarrow> bool" where
  "single_flight pg =
     (length (in_flight pg) \<le> 1 \<and> loading (session pg) = (in_flight pg \<noteq> []))"

section \<open>The delimited-text encoder as the specification words it\<close>

text \<open>
  The specification's \<open>toDelimitedText\<close>: the six values of the record in the fixed
  order, the discounted price as the empty string when absent, every field wrapped in
  double quotes with each double quote inside it doubled. It is compared with
  \<open>csvContent\<close> below.
\<close>

definition spec_fields :: "ProductData \<Rightarrow> string list" where
  "spec_fields p =
     [product_name p,
      original (price p),
      (case discounted (price p) of None \<Rightarrow> [] | Some v \<Rightarrow> v),
      description p,
      join ''; '' (variants p),
      join ''; '' (image_urls p)]"

definition spec_toDelimitedText :: "ProductData \<Rightarrow> string" where
  "spec_toDelimitedText p =
     join [CHR 0x0A]
       [join '','' (map (\<lambda>f. quoted (replace_quotes f)) csv_headers),
        join '','' (map (\<lambda>f. quoted (replace_quotes f)) (spec_fields p))]"

section \<open>Concrete inputs\<close>

text \<open>The URL and the record of the specification's end-to-end scenario.\<close>

definition widget_url :: string where
  "widget_url = ''https://www.amazon.in/widget/dp/B000123456''"

definition widget :: ProductData where
  "widget =
     \<lparr>product_name = ''Widget'',
      price = \<lparr>original = ''$10.00'', discounted = None\<rparr>,
      description = [],
      variants = [],
      image_urls = []\<rparr>"

text \<open>A record whose name and description both contain double quotes.\<close>

definition monitor :: ProductData where
  "monitor =
     \<lparr>product_name = ''27\" Monitor'',
      price = \<lparr>original = ''$199.00'', discounted = Some ''$149.00''\<rparr>,
      description = ''Great \"value\" item'',
      variants = [''Red'', ''Blue''],
      image_urls = [''https://img.example/1.jpg'']\<rparr>"

text \<open>
  A session that holds \<open>widget\<close> from an earlier scrape and waits for the next one, at
  an endpoint that may send a product record (\<open>Inl\<close>) or any other body (\<open>Inr\<close>, its
  text); and a response with status 200 whose body is not a product record.
\<close>

definition waiting :: "(ProductData + string) session" where
  "waiting = \<lparr>url = widget_url, loading = True, productData = Some (Inl widget)\<rparr>"

definition error_page :: "(ProductData + string) http_result" where
  "error_page = HttpResponse 200 (Some (Inr ''<html>Robot check</html>''))"

section \<open>Properties\<close>

subsection \<open>The validator\<close>

lemma str_includes_sublist: "str_includes s sub = sublist sub s"
  by (induction s) (auto simp: sublist_Cons_right)

lemma str_includes_iff: "str_includes s sub = (\<exists>p q. s = p @ sub @ q)"
  by (simp add: str_includes_sublist sublist_def)

lemma includes_first: "str_includes (x @ m @ y) m"
  unfolding str_includes_iff by blast

lemma includes_later: "str_includes (x @ k @ y @ m @ z) m"
proof -
  have "x @ k @ y @ m @ z = (x @ k @ y) @ m @ z" by simp
  then show ?thesis unfolding str_includes_iff by blast
qed

text \<open>
  C4: \<open>validateAmazonUrl\<close> accepts a string exactly when \<open>amazon.\<close> occurs in it and
  \<open>/dp/\<close> or \<open>/gp/\<close> occurs in it. A URL with the domain and no marker is rejected, one
  with either marker is accepted, and the marker may stand before or after the domain.
\<close>

theorem validateAmazonUrl_iff:
  "(validateAmazonUrl u =
     ((\<exists>p q. u = p @ ''amazon.'' @ q) \<and>
      ((\<exists>p q. u = p @ ''/dp/'' @ q) \<or> (\<exists>p q. u = p @ ''/gp/'' @ q))))
   \<and> \<not> validateAmazonUrl ''https://www.amazon.in/''
   \<and> validateAmazonUrl (a @ ''amazon.'' @ b @ ''/dp/'' @ c)
   \<and> validateAmazonUrl (a @ ''amazon.'' @ b @ ''/gp/'' @ c)
   \<and> validateAmazonUrl (a @ ''/dp/'' @ b @ ''amazon.'' @ c)
   \<and> validateAmazonUrl (a @ ''/gp/'' @ b @ ''amazon.'' @ c)"
proof -
  have "validateAmazonUrl u =
     ((\<exists>p q. u = p @ ''amazon.'' @ q) \<and>
      ((\<exists>p q. u = p @ ''/dp/'' @ q) \<or> (\<exists>p q. u = p @ ''/gp/'' @ q)))"
    by (simp only: validateAmazonUrl_def str_includes_iff)
  moreover have "\<not> validateAmazonUrl ''https://www.amazon.in/''"
    by (simp add: validateAmazonUrl_def)
  moreover have "validateAmazonUrl (a @ ''amazon.'' @ b @ ''/dp/'' @ c)"
    unfolding validateAmazonUrl_def using includes_first includes_later by blast
  moreover have "validateAmazonUrl (a @ ''amazon.'' @ b @ ''/gp/'' @ c)"
    unfolding validateAmazonUrl_def using includes_first includes_later by blast
  moreover have "validateAmazonUrl (a @ ''/dp/'' @ b @ ''amazon.'' @ c)"
    unfolding validateAmazonUrl_def using includes_first includes_later by blast
  moreover have "validateAmazonUrl (a @ ''/gp/'' @ b @ ''amazon.'' @ c)"
    unfolding validateAmazonUrl_def using includes_first includes_later by blast
  ultimately show ?thesis by blast
qed

subsection \<open>The scrape handler and the guards of the exports\<close>

lemma or_empty_case: "or_empty v = (case v of None \<Rightarrow> [] | Some t \<Rightarrow> t)"
  by (simp add: or_empty_def truthy_def split: option.splits)

lemma widget_url_accepted: "trim widget_url \<noteq> [] \<and> validateAmazonUrl widget_url"
  by (simp add: widget_url_def trim_def is_white_space_def validateAmazonUrl_def)

text \<open>
  C5: when the trimmed URL is empty or the validator rejects the URL, \<open>handleScrape\<close>
  leaves the session as it is (so \<open>loading\<close> does not become true and the record
  stays), issues no request and emits one destructive toast. When both checks pass it
  sets \<open>loading\<close>, changes nothing else and posts to \<open>/scrape\<close> exactly once.
\<close>

theorem handleScrape_guard:
  "(trim (url s) = [] \<or> \<not> validateAmazonUrl (url s) \<longrightarrow>
      fst (handleScrape s) = s \<and> requests (snd (handleScrape s)) = [] \<and>
      (\<exists>title text. snd (handleScrape s) = [Toast title text Destructive]))
   \<and> (trim (url s) \<noteq> [] \<and> validateAmazonUrl (url s) \<longrightarrow>
      fst (handleScrape s) = s\<lparr>loading := True\<rparr> \<and>
      snd (handleScrape s) = [AxiosPost ''/scrape'' (url s)] \<and>
      requests (snd (handleScrape s)) = [url s])"
  by (simp add: handleScrape_def requests_def)

text \<open>The three branches at a blank input, a domain-only URL and the scenario's URL.\<close>

theorem handleScrape_guard_witness:
  "trim (url (initial\<lparr>url := ''   ''\<rparr> :: unit session)) = []
   \<and> handleScrape (initial\<lparr>url := ''   ''\<rparr> :: unit session) =
       (initial\<lparr>url := ''   ''\<rparr>,
        [Toast ''URL Required'' ''Please enter an Amazon product URL'' Destructive])
   \<and> \<not> validateAmazonUrl (url (initial\<lparr>url := ''https://www.amazon.in/''\<rparr> :: unit session))
   \<and> handleScrape (initial\<lparr>url := ''https://www.amazon.in/''\<rparr> :: unit session) =
       (initial\<lparr>url := ''https://www.amazon.in/''\<rparr>,
        [Toast ''Invalid URL'' ''Please enter a valid Amazon product URL'' Destructive])
   \<and> trim (url (initial\<lparr>url := widget_url\<rparr> :: unit session)) \<noteq> []
   \<and> validateAmazonUrl (url (initial\<lparr>url := widget_url\<rparr> :: unit session))
   \<and> handleScrape (initial\<lparr>url := widget_url\<rparr> :: unit session) =
       (initial\<lparr>url := widget_url, loading := True\<rparr>, [AxiosPost ''/scrape'' widget_url])"
  using handleScrape_guard [of "initial\<lparr>url := ''   ''\<rparr> :: unit session"]
    handleScrape_guard [of "initial\<lparr>url := ''https://www.amazon.in/''\<rparr> :: unit session"]
    handleScrape_guard [of "initial\<lparr>url := widget_url\<rparr> :: unit session"]
    widget_url_accepted
  by (simp add: initial_def handleScrape_def trim_def is_white_space_def validateAmazonUrl_def)

text \<open>
  C10: for an accepted input the request carries \<open>url\<close> as it was typed. \<open>trim\<close> is
  used for the blank test of line 34 only; the payload of line 54 is the untrimmed text.
\<close>

theorem scrape_payload_verbatim:
  "trim (url s) \<noteq> [] \<Longrightarrow> validateAmazonUrl (url s) \<Longrightarrow>
     snd (handleScrape s) = [AxiosPost ''/scrape'' (url s)]"
  by (simp add: handleScrape_def)

text \<open>An accepted URL with blanks on both sides is posted with its blanks.\<close>

theorem scrape_payload_verbatim_witness:
  "trim (''  '' @ widget_url @ '' '') = widget_url
   \<and> snd (handleScrape (initial\<lparr>url := ''  '' @ widget_url @ '' ''\<rparr> :: unit session)) =
       [AxiosPost ''/scrape'' (''  '' @ widget_url @ '' '')]
   \<and> ''  '' @ widget_url @ '' '' \<noteq> widget_url"
proof -
  have t: "trim (''  '' @ widget_url @ '' '') = widget_url"
    by (simp add: widget_url_def trim_def is_white_space_def)
  have v: "validateAmazonUrl (''  '' @ widget_url @ '' '')"
    by (simp add: widget_url_def validateAmazonUrl_def)
  have n: "widget_url \<noteq> []"
    by (simp add: widget_url_def)
  show ?thesis
    using scrape_payload_verbatim [of "initial\<lparr>url := ''  '' @ widget_url @ '' ''\<rparr> :: unit session"]
      t v n
    by simp
qed

text \<open>
  C2, as stated, fails for a malformed payload: \<open>handleScrape\<close> has no shape check, so
  a response with status 200 whose body is not a product record fulfils the promise,
  replaces the stored record by that body and raises the success toast.
\<close>

theorem malformed_payload_overwrites_record:
  "axios_post error_page = Fulfilled (Some (Inr ''<html>Robot check</html>''))
   \<and> productData waiting = Some (Inl widget)
   \<and> handleScrape_resume (axios_post error_page) waiting =
       (\<lparr>url = widget_url, loading = False,
         productData = Some (Inr ''<html>Robot check</html>'')\<rparr>,
        [Toast ''Success!'' ''Product data scraped successfully'' Default])
   \<and> productData (fst (handleScrape_resume (axios_post error_page) waiting)) \<noteq> productData waiting"
  by (simp add: error_page_def waiting_def)

text \<open>
  C2, amended: when the session holds a record and the request is rejected (no response,
  or a status outside 200 to 299), the \<open>catch\<close> and \<open>finally\<close> branches leave the record
  and the URL as they are, clear \<open>loading\<close> and report the failure, on the console and
  by the toast \<open>Scraping Failed\<close>. The component keeps no status beyond \<open>loading\<close>;
  the failure toast is how the failed state is observed.
\<close>

theorem rejected_scrape_keeps_record:
  "productData s = Some rec \<Longrightarrow>
   r = NetworkError \<or> (\<exists>status body. r = HttpResponse status body \<and> (status < 200 \<or> 300 \<le> status)) \<Longrightarrow>
     productData (fst (handleScrape_resume (axios_post r) s)) = Some rec
     \<and> loading (fst (handleScrape_resume (axios_post r) s)) = False
     \<and> url (fst (handleScrape_resume (axios_post r) s)) = url s
     \<and> snd (handleScrape_resume (axios_post r) s) =
         [ConsoleError ''Scraping error:'',
          Toast ''Scraping Failed'' ''Failed to scrape product data. Please try again.'' Destructive]"
  by auto

text \<open>A network error and a status 503, both after \<open>widget\<close> was stored.\<close>

theorem rejected_scrape_keeps_record_witness:
  "productData waiting = Some (Inl widget)
   \<and> productData (fst (handleScrape_resume (axios_post NetworkError) waiting)) = Some (Inl widget)
   \<and> productData (fst (handleScrape_resume (axios_post (HttpResponse 503 (Some (Inr ''busy'')))) waiting))
       = Some (Inl widget)
   \<and> loading (fst (handleScrape_resume (axios_post (HttpResponse 503 (Some (Inr ''busy'')))) waiting))
       = False"
  using rejected_scrape_keeps_record [of waiting "Inl widget" NetworkError]
    rejected_scrape_keeps_record [of waiting "Inl widget" "HttpResponse 503 (Some (Inr ''busy''))"]
  by (simp add: waiting_def)

text \<open>
  C8: when \<open>productData\<close> is \<open>null\<close> both export handlers return at once: no
  \<open>saveAs\<close>, no \<open>writeFile\<close>, no other effect, and the session is unchanged.
\<close>

theorem export_without_record:
  "productData s = None \<Longrightarrow> exportToCSV s = (s, []) \<and> exportToExcel s = (s, [])"
  by (simp add: exportToCSV_def exportToExcel_def)

text \<open>The initial session has no record.\<close>

theorem export_without_record_witness:
  "productData (initial :: ProductData session) = None
   \<and> exportToCSV initial = (initial, []) \<and> exportToExcel initial = (initial, [])"
  using export_without_record [of initial] by (simp add: initial_def)

subsection \<open>The export encoders\<close>

lemma replace_quotes_id: "CHR 0x22 \<notin> set s \<Longrightarrow> replace_quotes s = s"
  by (induction s) (auto simp: replace_quotes_def)

text \<open>
  C3: the delimited text is the header line, one line feed and the data line. Each line
  is six quoted fields joined by commas, and the data fields stand in the order of the
  headers: name, original price, discounted price (the empty string when absent),
  description, variants joined by \<open>; \<close> and image URLs joined by \<open>; \<close>.
\<close>

theorem csvContent_layout:
  "csvContent p =
     ''\"Product Name\",\"Original Price\",\"Discounted Price\",\"Description\",\"Variants\",\"Image URLs\"''
     @ [CHR 0x0A]
     @ quoted (product_name p) @ '',''
     @ quoted (original (price p)) @ '',''
     @ quoted (case discounted (price p) of None \<Rightarrow> [] | Some v \<Rightarrow> v) @ '',''
     @ quoted (replace_quotes (description p)) @ '',''
     @ quoted (join ''; '' (variants p)) @ '',''
     @ quoted (join ''; '' (image_urls p))
   \<and> zip csv_headers (csv_data p) =
     [(''Product Name'', product_name p),
      (''Original Price'', original (price p)),
      (''Discounted Price'', case discounted (price p) of None \<Rightarrow> [] | Some v \<Rightarrow> v),
      (''Description'', replace_quotes (description p)),
      (''Variants'', join ''; '' (variants p)),
      (''Image URLs'', join ''; '' (image_urls p))]"
  by (simp add: csvContent_def csv_headers_def csv_data_def quoted_def or_empty_case)

text \<open>The record of the end-to-end scenario: four of its fields are empty.\<close>

lemma csvContent_widget:
  "csvContent widget =
     ''\"Product Name\",\"Original Price\",\"Discounted Price\",\"Description\",\"Variants\",\"Image URLs\"''
     @ [CHR 0x0A] @ ''\"Widget\",\"$10.00\",\"\",\"\",\"\",\"\"''"
  by (simp add: csvContent_def csv_headers_def csv_data_def quoted_def or_empty_case widget_def
      replace_quotes_def)

text \<open>
  C7: the workbook has exactly one sheet, named \<open>Product Data\<close>, with two rows: the
  six column labels of the delimited-text export and one data row with the six values of
  the record in the same order (the discounted price as the empty string when absent,
  variants and image URLs joined by \<open>; \<close>). The description cell is the description
  itself; doubling of quotes belongs to the delimited-text encoding only.
\<close>

theorem excel_workbook_layout:
  "excel_workbook p =
     [(''Product Data'',
       [map Some csv_headers,
        map Some
          [product_name p,
           original (price p),
           (case discounted (price p) of None \<Rightarrow> [] | Some v \<Rightarrow> v),
           description p,
           join ''; '' (variants p),
           join ''; '' (image_urls p)]])]"
  by (simp add: excel_workbook_def book_append_sheet_def book_new_def json_to_sheet_def
      excel_row_def add_key_def csv_headers_def or_empty_case)

text \<open>
  C9: a discounted price that is present but falsy (for a string, the empty string)
  gives the same output as an absent one in both encoders: the field is the empty string.
\<close>

theorem falsy_discount_renders_empty:
  "\<not> truthy d \<Longrightarrow>
     csv_data (p\<lparr>price := (price p)\<lparr>discounted := d\<rparr>\<rparr>) ! 2 = []
     \<and> csvContent (p\<lparr>price := (price p)\<lparr>discounted := d\<rparr>\<rparr>) =
         csvContent (p\<lparr>price := (price p)\<lparr>discounted := None\<rparr>\<rparr>)
     \<and> map_of (excel_row (p\<lparr>price := (price p)\<lparr>discounted := d\<rparr>\<rparr>)) ''Discounted Price'' = Some []
     \<and> excel_workbook (p\<lparr>price := (price p)\<lparr>discounted := d\<rparr>\<rparr>) =
         excel_workbook (p\<lparr>price := (price p)\<lparr>discounted := None\<rparr>\<rparr>)"
  by (simp add: csvContent_def csv_data_def excel_workbook_def excel_row_def or_empty_def truthy_def)

text \<open>The empty string as discounted price of \<open>monitor\<close>.\<close>

theorem falsy_discount_renders_empty_witness:
  "\<not> truthy (Some [])
   \<and> csvContent (monitor\<lparr>price := (price monitor)\<lparr>discounted := Some []\<rparr>\<rparr>) =
       csvContent (monitor\<lparr>price := (price monitor)\<lparr>discounted := None\<rparr>\<rparr>)
   \<and> excel_workbook (monitor\<lparr>price := (price monitor)\<lparr>discounted := Some []\<rparr>\<rparr>) =
       excel_workbook (monitor\<lparr>price := (price monitor)\<lparr>discounted := None\<rparr>\<rparr>)"
  using falsy_discount_renders_empty [of "Some []" monitor]
  by (simp add: truthy_def)

text \<open>
  C1 asks that a double quote inside any of the six fields be doubled. \<open>exportToCSV\<close>
  doubles the quotes of the description only (line 81); the other five fields are
  wrapped in quotes as they are. For \<open>monitor\<close>, whose name contains a double quote, the
  name field of \<open>csvContent\<close> keeps the single quote, the description field has its
  quotes doubled, and the output differs from the specification's encoding.
\<close>

theorem csv_name_quote_not_doubled:
  "csv_data monitor ! 0 = ''27\" Monitor''
   \<and> spec_fields monitor ! 0 = ''27\" Monitor''
   \<and> csvContent monitor =
       ''\"Product Name\",\"Original Price\",\"Discounted Price\",\"Description\",\"Variants\",\"Image URLs\"''
       @ [CHR 0x0A]
       @ ''\"27\" Monitor\",\"$199.00\",\"$149.00\",\"Great \"\"value\"\" item\",\"Red; Blue\",\"https://img.example/1.jpg\"''
   \<and> spec_toDelimitedText monitor =
       ''\"Product Name\",\"Original Price\",\"Discounted Price\",\"Description\",\"Variants\",\"Image URLs\"''
       @ [CHR 0x0A]
       @ ''\"27\"\" Monitor\",\"$199.00\",\"$149.00\",\"Great \"\"value\"\" item\",\"Red; Blue\",\"https://img.example/1.jpg\"''
   \<and> csvContent monitor \<noteq> spec_toDelimitedText monitor"
  by (simp add: csvContent_def csv_headers_def csv_data_def quoted_def or_empty_case monitor_def
      replace_quotes_def spec_toDelimitedText_def spec_fields_def)

text \<open>
  The two encodings agree on every record whose name, prices, variants and image URLs
  contain no double quote.
\<close>

lemma csvContent_meets_spec:
  "CHR 0x22 \<notin> set (product_name p) \<Longrightarrow> CHR 0x22 \<notin> set (original (price p)) \<Longrightarrow>
   CHR 0x22 \<notin> set (or_empty (discounted (price p))) \<Longrightarrow>
   CHR 0x22 \<notin> set (join ''; '' (variants p)) \<Longrightarrow>
   CHR 0x22 \<notin> set (join ''; '' (image_urls p)) \<Longrightarrow>
     csvContent p = spec_toDelimitedText p"
  by (simp add: csvContent_def spec_toDelimitedText_def csv_data_def spec_fields_def
      replace_quotes_id or_empty_case csv_headers_def)

subsection \<open>Single flight\<close>

text \<open>
  Each handler runs to its suspension point or to its end before the next event, and the
  page is rendered from the session it leaves, so an event finds the elements enabled or
  disabled as that session says.
\<close>

lemma resume_requests: "requests (snd (handleScrape_resume r s)) = []"
  by (cases r) (simp_all add: requests_def)

lemma resume_loading: "loading (fst (handleScrape_resume r s)) = False"
  by (cases r) simp_all

lemma handleScrape_flight:
  "\<not> loading s \<Longrightarrow>
     length (requests (snd (handleScrape s))) \<le> 1 \<and>
     loading (fst (handleScrape s)) = (requests (snd (handleScrape s)) \<noteq> [])"
  by (simp add: handleScrape_def requests_def)

lemma export_flight:
  "requests (snd (exportToCSV s)) = [] \<and> fst (exportToCSV s) = s \<and>
   requests (snd (exportToExcel s)) = [] \<and> fst (exportToExcel s) = s"
  by (simp add: exportToCSV_def exportToExcel_def requests_def split: option.splits)

lemma dispatch_fields:
  "session (dispatch h pg) = fst (h (session pg))"
  "in_flight (dispatch h pg) = in_flight pg @ requests (snd (h (session pg)))"
  by (simp_all add: dispatch_def split: prod.splits)

lemma ui_step_single_flight:
  assumes "single_flight pg" and "ui_step e pg = Some pg'"
  shows "single_flight pg'"
proof (cases e)
  case (Change v)
  with assms show ?thesis
    by (auto simp: single_flight_def split: if_splits)
next
  case ClickScrape
  with assms have idle: "\<not> loading (session pg)" and pg': "pg' = dispatch handleScrape pg"
    by (auto simp: scrape_disabled_def split: if_splits)
  from idle assms(1) have "in_flight pg = []"
    by (simp add: single_flight_def)
  with handleScrape_flight [OF idle] show ?thesis
    by (simp add: single_flight_def pg' dispatch_fields)
next
  case (Settle i r)
  with assms have i: "i < length (in_flight pg)"
    and pg': "pg' = dispatch (handleScrape_resume (axios_post r))
                (pg\<lparr>in_flight := take i (in_flight pg) @ drop (Suc i) (in_flight pg)\<rparr>)"
    by (auto split: if_splits)
  from i assms(1) have "length (in_flight pg) = 1" and i0: "i = 0"
    by (simp_all add: single_flight_def)
  then obtain u where u: "in_flight pg = [u]"
    by (cases "in_flight pg") auto
  show ?thesis
    by (simp add: single_flight_def pg' dispatch_fields resume_requests resume_loading u i0)
next
  case ClickExportCSV
  with assms show ?thesis
    by (auto simp: single_flight_def dispatch_fields export_flight split: if_splits)
next
  case ClickExportExcel
  with assms show ?thesis
    by (auto simp: single_flight_def dispatch_fields export_flight split: if_splits)
qed

lemma run_single_flight:
  "single_flight pg \<Longrightarrow> run es pg = Some pg' \<Longrightarrow> single_flight pg'"
proof (induction es arbitrary: pg)
  case Nil
  then show ?case by simp
next
  case (Cons e es)
  then show ?case
    by (auto split: option.splits dest: ui_step_single_flight)
qed

lemma start_single_flight: "single_flight start"
  by (simp add: single_flight_def start_def initial_def)

text \<open>
  C6: in every page reachable from the start by events the page offers, at most one
  scrape request is outstanding; one is outstanding exactly while \<open>loading\<close> is set, and
  while one is outstanding the scrape button is disabled, so a click cannot issue a
  second request.
\<close>

theorem at_most_one_in_flight:
  "run es start = Some pg \<Longrightarrow>
     length (in_flight pg) \<le> 1
     \<and> loading (session pg) = (in_flight pg \<noteq> [])
     \<and> (in_flight pg = [] \<or> ui_step ClickScrape pg = None)"
proof -
  assume "run es start = Some pg"
  with start_single_flight have "single_flight pg"
    by (rule run_single_flight)
  then show ?thesis
    by (auto simp: single_flight_def scrape_disabled_def)
qed

text \<open>After the URL is typed and the button clicked, one request is out and the button is off.\<close>

theorem at_most_one_in_flight_witness:
  "run [Change widget_url, ClickScrape] start =
     Some \<lparr>session = \<lparr>url = widget_url, loading = True, productData = None\<rparr>,
           in_flight = [widget_url]\<rparr>
   \<and> ui_step ClickScrape
       \<lparr>session = \<lparr>url = widget_url, loading = True, productData = None\<rparr>,
        in_flight = [widget_url]\<rparr> = None"
proof -
  have r: "run [Change widget_url, ClickScrape] start =
     Some \<lparr>session = \<lparr>url = widget_url, loading = True, productData = None\<rparr>,
           in_flight = [widget_url]\<rparr>"
    using widget_url_accepted
    by (simp add: start_def initial_def scrape_disabled_def dispatch_def handleScrape_def
        requests_def)
  from at_most_one_in_flight [OF r] r show ?thesis
    by simp
qed

text \<open>
  The guard is the disabled button, not the handler: \<open>handleScrape\<close> itself posts again
  when it is run on a session that is already loading.
\<close>

lemma handleScrape_unguarded:
  "requests (snd (handleScrape (waiting\<lparr>loading := True\<rparr>))) = [widget_url]"
  using widget_url_accepted by (simp add: handleScrape_def waiting_def requests_def)

end
